theory Spec2Isabelle
  imports Main "HOL-Library.Word" "HOL-Library.Sublist"
begin

section \<open>Data model\<close>

text \<open>
  Go's \<open>int64\<close>, \<open>uint64\<close> and \<open>uint32\<close> are machine words; the conversion
  \<open>uint64(x)\<close> of an \<open>int64\<close> keeps the bits, so both are read from the same
  \<open>64 word\<close>. A Go pointer that may be nil is an \<open>option\<close>.
\<close>

type_synonym int64 = "64 word"
type_synonym uint64 = "64 word"
type_synonym uint32 = "32 word"

text \<open>A Go \<open>error\<close> value, seen through its \<open>Error()\<close> text.\<close>

datatype error = Error (message: string)

subsection \<open>Resource limits: the CRI request and the OCI runtime spec\<close>

text \<open>\<open>types.LinuxContainerResources\<close>: the fields of the CRI request.\<close>

record LinuxContainerResources =
  CPUPeriod :: int64
  CPUQuota :: int64
  CPUShares :: int64
  MemoryLimitInBytes :: int64
  OomScoreAdj :: int64
  CPUsetCPUs :: string
  CPUsetMems :: string

text \<open>
  \<open>rspec.LinuxCPU\<close>, \<open>rspec.LinuxMemory\<close> and \<open>rspec.LinuxResources\<close>, with the
  fields that \<open>toOCIResources\<close> names; each pointer field is present or absent.
\<close>

record LinuxCPU =
  cpu_Shares :: "uint64 option"
  cpu_Quota :: "int64 option"
  cpu_Period :: "uint64 option"
  cpu_Cpus :: string
  cpu_Mems :: string

record LinuxMemory =
  mem_Limit :: "int64 option"
  mem_Swap :: "int64 option"

record LinuxResources =
  res_CPU :: "LinuxCPU option"
  res_Memory :: "LinuxMemory option"

subsection \<open>Containers and sandboxes\<close>

datatype ContainerState = Created | Running | Stopped

record Container =
  ctr_ID :: string
  ctr_Name :: string
  ctr_Attempt :: uint32
  ctr_Labels :: "(string \<times> string) list"
  ctr_Annotations :: "(string \<times> string) list"
  ctr_Sandbox :: string
  ctr_MountPoint :: string
  ctr_State :: ContainerState
  ctr_Resources :: "LinuxResources option"

record Sandbox =
  sb_ID :: string
  sb_CgroupParent :: string

subsection \<open>Statistics\<close>

text \<open>\<open>oci.ContainerStats\<close>: the fields that \<open>buildContainerStats\<close> reads.\<close>

record OciContainerStats =
  oci_SystemNano :: int64
  oci_CPUNano :: uint64
  oci_WorkingSetBytes :: uint64

record ContainerMetadata =
  md_Name :: string
  md_Attempt :: uint32

record ContainerAttributes =
  attr_ID :: string
  attr_Metadata :: "ContainerMetadata option"
  attr_Labels :: "(string \<times> string) list"
  attr_Annotations :: "(string \<times> string) list"

record CPUUsage =
  cu_Timestamp :: int64
  cu_UsageCoreNanoSeconds :: "uint64 option"

record MemoryUsage =
  mu_Timestamp :: int64
  mu_WorkingSetBytes :: "uint64 option"

text \<open>
  \<open>types.FilesystemUsage\<close>; \<open>FsID\<close> points to an identifier whose one field is the
  mount point, and each \<open>UInt64Value\<close> pointer is the value it holds.
\<close>

record FilesystemUsage =
  fs_Timestamp :: int64
  fs_FsID :: "string option"
  fs_UsedBytes :: "uint64 option"
  fs_InodesUsed :: "uint64 option"

record ContainerStats =
  cs_Attributes :: "ContainerAttributes option"
  cs_CPU :: "CPUUsage option"
  cs_Memory :: "MemoryUsage option"
  cs_WritableLayer :: "FilesystemUsage option"

record ContainerStatsRequest =
  csq_ContainerID :: string

record ContainerStatsResponse =
  csr_Stats :: "ContainerStats option"

record UpdateContainerResourcesRequest =
  ucr_ContainerID :: string
  ucr_Linux :: "LinuxContainerResources option"

subsection \<open>The server and its collaborators\<close>

text \<open>
  The server's state: the container and sandbox registries, the configured storage
  driver, and the record of the calls made to the runtime's \<open>UpdateContainer\<close>
  (container ID and resources, in call order).
\<close>

record Server =
  srv_containers :: "string \<rightharpoonup> Container"
  srv_sandboxes :: "string \<rightharpoonup> Sandbox"
  srv_Storage :: string
  srv_updateCalls :: "(string \<times> LinuxResources) list"

text \<open>
  What lies outside the repository is a parameter: the OCI runtime
  (\<open>s.Runtime().UpdateContainer\<close>, \<open>s.Runtime().ContainerStats\<close>), the file system
  as the disk-usage walk sees it (\<open>diskWalk\<close>: for a path, either the error that
  stopped the walk or the bytes and inodes it counted), the host probe
  \<open>node.CgroupHasMemorySwap\<close>, and \<open>filepath.Dir\<close>/\<open>filepath.Join\<close> of the standard
  library. A successful runtime stats query returns a non-nil record.
\<close>

record Env =
  rt_UpdateContainer :: "Container \<Rightarrow> LinuxResources \<Rightarrow> error option"
  rt_ContainerStats :: "Container \<Rightarrow> string \<Rightarrow> error + OciContainerStats"
  diskWalk :: "string \<Rightarrow> error + uint64 \<times> uint64"
  CgroupHasMemorySwap :: bool
  filepath_Dir :: "string \<Rightarrow> string"
  filepath_Join :: "string list \<Rightarrow> string"

text \<open>
  Modelled from the spec: \<open>GetContainerFromShortID\<close> is not among the sources;
  the spec gives \<open>resolveContainer(shortID) -> Container | NotFoundError\<close>.
  The registry key stands for the pointer that the Go function returns.
\<close>

definition GetContainerFromShortID :: "Server \<Rightarrow> string \<Rightarrow> error + Container" where
  "GetContainerFromShortID s cid =
     (case srv_containers s cid of
        None \<Rightarrow> Inl (Error (''container '' @ cid @ '' not found''))
      | Some c \<Rightarrow> Inr c)"

text \<open>
  Modelled from the spec: \<open>GetSandbox\<close> is not among the sources; the spec gives
  \<open>resolveSandbox(id) -> Sandbox | nil\<close>.
\<close>

definition GetSandbox :: "Server \<Rightarrow> string \<Rightarrow> Sandbox option" where
  "GetSandbox s sid = srv_sandboxes s sid"

text \<open>
  Modelled from the spec: \<open>IsAlive\<close> is not among the sources; the spec accepts
  updates only for a container in the created or the running state, and calls the
  failure "not live".
\<close>

definition IsAlive :: "Container \<Rightarrow> error option" where
  "IsAlive c =
     (if ctr_State c = Created \<or> ctr_State c = Running then None
      else Some (Error (''container '' @ ctr_ID c @ '' is not live'')))"

text \<open>
  Modelled from the spec: \<open>UpdateContainerLinuxResources\<close> is not among the
  sources; the spec has it replace the container's resource snapshot wholesale with
  the applied spec. The container is the one stored under the registry key.
\<close>

definition UpdateContainerLinuxResources :: "Server \<Rightarrow> string \<Rightarrow> LinuxResources \<Rightarrow> Server" where
  "UpdateContainerLinuxResources s cid resources =
     (case srv_containers s cid of
        None \<Rightarrow> s
      | Some c \<Rightarrow> s\<lparr>srv_containers := (srv_containers s)(cid \<mapsto> c\<lparr>ctr_Resources := Some resources\<rparr>)\<rparr>)"

text \<open>
  Modelled from the spec: \<open>statsmgr.GetDiskUsageStats\<close> is not among the sources; the
  spec gives \<open>diskUsage(path) -> (bytesUsed, inodesUsed, error)\<close>, a walk of the subtree
  that sums sizes and counts entries, and has a failed probe degrade to zero-valued
  usage. The result is Go's triple: the two counts with a nil error, or zeros with the
  error of the walk.
\<close>

definition GetDiskUsageStats :: "Env \<Rightarrow> string \<Rightarrow> uint64 \<times> uint64 \<times> error option" where
  "GetDiskUsageStats env path =
     (case diskWalk env path of
        Inl err \<Rightarrow> (0, 0, Some err)
      | Inr (bytesUsed, inodeUsed) \<Rightarrow> (bytesUsed, inodeUsed, None))"

section \<open>Resource updates (container_update_resources.go)\<close>

text \<open>
  \<open>toOCIResources\<close>: the CPU set strings are copied by the struct literal, each
  numeric field is assigned only when the request's value is not zero, and the swap
  limit is assigned inside the branch of a non-zero memory limit, when the host has
  swap accounting.
\<close>

definition toOCIResources :: "bool \<Rightarrow> LinuxContainerResources \<Rightarrow> LinuxResources" where
  "toOCIResources hasSwap r =
     (let cpu0 = \<lparr>cpu_Shares = None, cpu_Quota = None, cpu_Period = None,
                  cpu_Cpus = CPUsetCPUs r, cpu_Mems = CPUsetMems r\<rparr>;
          mem0 = \<lparr>mem_Limit = None, mem_Swap = None\<rparr>;
          cpu1 = (if CPUShares r \<noteq> 0 then cpu0\<lparr>cpu_Shares := Some (CPUShares r)\<rparr> else cpu0);
          cpu2 = (if CPUPeriod r \<noteq> 0 then cpu1\<lparr>cpu_Period := Some (CPUPeriod r)\<rparr> else cpu1);
          cpu3 = (if CPUQuota r \<noteq> 0 then cpu2\<lparr>cpu_Quota := Some (CPUQuota r)\<rparr> else cpu2);
          memory = MemoryLimitInBytes r;
          mem1 = (if memory \<noteq> 0
                  then (let m = mem0\<lparr>mem_Limit := Some memory\<rparr>
                        in if hasSwap then m\<lparr>mem_Swap := Some memory\<rparr> else m)
                  else mem0)
      in \<lparr>res_CPU = Some cpu3, res_Memory = Some mem1\<rparr>)"

text \<open>
  \<open>UpdateContainerResources\<close> returns the error (\<open>None\<close> for nil) and the server
  state after the call. The runtime call is recorded in \<open>srv_updateCalls\<close> when it
  is made, whatever it returns.
\<close>

definition UpdateContainerResources ::
  "Env \<Rightarrow> Server \<Rightarrow> UpdateContainerResourcesRequest \<Rightarrow> error option \<times> Server" where
  "UpdateContainerResources env s req =
     (case GetContainerFromShortID s (ucr_ContainerID req) of
        Inl err \<Rightarrow> (Some err, s)
      | Inr c \<Rightarrow>
          (case IsAlive c of
             Some err \<Rightarrow>
               (Some (Error (''container is not created or running: '' @ message err)), s)
           | None \<Rightarrow>
               (case ucr_Linux req of
                  None \<Rightarrow> (None, s)
                | Some linux \<Rightarrow>
                    (let resources = toOCIResources (CgroupHasMemorySwap env) linux;
                         s1 = s\<lparr>srv_updateCalls := srv_updateCalls s @ [(ctr_ID c, resources)]\<rparr>
                     in case rt_UpdateContainer env c resources of
                          Some err \<Rightarrow> (Some err, s1)
                        | None \<Rightarrow>
                            (None, UpdateContainerLinuxResources s1 (ucr_ContainerID req) resources)))))"

section \<open>Statistics (container_stats.go)\<close>

text \<open>
  \<open>buildContainerStats\<close> returns the record and the warnings it logged. The
  separator in the warning is the source's full-width comma (UTF-8 bytes EF BC 8C).
\<close>

definition diskUsageWarning :: "Container \<Rightarrow> error \<Rightarrow> string" where
  "diskUsageWarning container err =
     ''unable to get disk usage for container '' @ ctr_ID container
       @ [CHR 0xEF, CHR 0xBC, CHR 0x8C] @ '' '' @ message err"

definition diffDir :: "Env \<Rightarrow> Container \<Rightarrow> string" where
  "diffDir env container =
     filepath_Join env [filepath_Dir env (ctr_MountPoint container), ''diff'']"

definition writableLayerOf ::
  "Env \<Rightarrow> Server \<Rightarrow> OciContainerStats \<Rightarrow> Container \<Rightarrow> FilesystemUsage option \<times> string list" where
  "writableLayerOf env s stats container =
     (if srv_Storage s = ''overlay''
      then (case GetDiskUsageStats env (diffDir env container) of
              (bytesUsed, inodeUsed, err) \<Rightarrow>
                (Some \<lparr>fs_Timestamp = oci_SystemNano stats,
                       fs_FsID = Some (ctr_MountPoint container),
                       fs_UsedBytes = Some bytesUsed,
                       fs_InodesUsed = Some inodeUsed\<rparr>,
                 (case err of None \<Rightarrow> [] | Some e \<Rightarrow> [diskUsageWarning container e])))
      else (None, []))"

definition buildContainerStats ::
  "Env \<Rightarrow> Server \<Rightarrow> OciContainerStats \<Rightarrow> Container \<Rightarrow> ContainerStats \<times> string list" where
  "buildContainerStats env s stats container =
     (case writableLayerOf env s stats container of
        (writableLayer, warnings) \<Rightarrow>
          (\<lparr>cs_Attributes = Some
              \<lparr>attr_ID = ctr_ID container,
               attr_Metadata = Some \<lparr>md_Name = ctr_Name container, md_Attempt = ctr_Attempt container\<rparr>,
               attr_Labels = ctr_Labels container,
               attr_Annotations = ctr_Annotations container\<rparr>,
            cs_CPU = Some
              \<lparr>cu_Timestamp = oci_SystemNano stats,
               cu_UsageCoreNanoSeconds = Some (oci_CPUNano stats)\<rparr>,
            cs_Memory = Some
              \<lparr>mu_Timestamp = oci_SystemNano stats,
               mu_WorkingSetBytes = Some (oci_WorkingSetBytes stats)\<rparr>,
            cs_WritableLayer = writableLayer\<rparr>,
           warnings))"

text \<open>
  The loop of \<open>CRIStatsForContainers\<close>, with its two accumulators \<open>stats\<close> and
  \<open>errs\<close> and the log written so far.
\<close>

definition sandboxNotFound :: "Container \<Rightarrow> error" where
  "sandboxNotFound c =
     Error (''unable to get stats for container '' @ ctr_ID c @ '': sandbox ''
              @ ctr_Sandbox c @ '' not found'')"

fun statsLoop ::
  "Env \<Rightarrow> Server \<Rightarrow> Container list \<Rightarrow> ContainerStats list \<Rightarrow> error list \<Rightarrow> string list
     \<Rightarrow> ContainerStats list \<times> error list \<times> string list" where
  "statsLoop env s [] stats errs logged = (stats, errs, logged)"
| "statsLoop env s (c # cs) stats errs logged =
     (case GetSandbox s (ctr_Sandbox c) of
        None \<Rightarrow> statsLoop env s cs stats (errs @ [sandboxNotFound c]) logged
      | Some sb \<Rightarrow>
          (case rt_ContainerStats env c (sb_CgroupParent sb) of
             Inl err \<Rightarrow> statsLoop env s cs stats (errs @ [err]) logged
           | Inr ociStat \<Rightarrow>
               (case buildContainerStats env s ociStat c of
                  (st, warnings) \<Rightarrow> statsLoop env s cs (stats @ [st]) errs (logged @ warnings))))"

definition CRIStatsForContainers ::
  "Env \<Rightarrow> Server \<Rightarrow> Container list \<Rightarrow> ContainerStats list \<times> error list \<times> string list" where
  "CRIStatsForContainers env s containers = statsLoop env s containers [] [] []"

text \<open>
  \<open>ContainerStats\<close>, lines 22 to 30: what the entry point makes of the two
  sequences that the batch call returned. A nil slice has length 0, so the test
  \<open>stats == nil || len(stats) != 1\<close> is the test on the length.
\<close>

definition statsResponse ::
  "string \<Rightarrow> ContainerStats list \<Rightarrow> error list \<Rightarrow> error + ContainerStatsResponse" where
  "statsResponse cid stats errs =
     (case errs of
        e # _ \<Rightarrow> Inl e
      | [] \<Rightarrow>
          (case stats of
             [st] \<Rightarrow> Inr \<lparr>csr_Stats = Some st\<rparr>
           | _ \<Rightarrow> Inl (Error (''Unknown error happened finding container stats for '' @ cid))))"

definition ContainerStats_call ::
  "Env \<Rightarrow> Server \<Rightarrow> ContainerStatsRequest \<Rightarrow> (error + ContainerStatsResponse) \<times> string list" where
  "ContainerStats_call env s req =
     (case GetContainerFromShortID s (csq_ContainerID req) of
        Inl err \<Rightarrow> (Inl err, [])
      | Inr container \<Rightarrow>
          (case CRIStatsForContainers env s [container] of
             (stats, errs, logged) \<Rightarrow> (statsResponse (csq_ContainerID req) stats errs, logged)))"

text \<open>
  The containers for which the loop produces a record: the sandbox is registered and the
  runtime's stats query, scoped by the sandbox's cgroup parent, succeeds.
\<close>

definition hasStats :: "Env \<Rightarrow> Server \<Rightarrow> Container \<Rightarrow> bool" where
  "hasStats env s c =
     (case GetSandbox s (ctr_Sandbox c) of
        None \<Rightarrow> False
      | Some sb \<Rightarrow>
          (case rt_ContainerStats env c (sb_CgroupParent sb) of
             Inl err \<Rightarrow> False
           | Inr ociStat \<Rightarrow> True))"

text \<open>
  The errors that one container adds to the error sequence of the loop: the
  sandbox-not-found error, the runtime's own error, or none.
\<close>

definition containerErrors :: "Env \<Rightarrow> Server \<Rightarrow> Container \<Rightarrow> error list" where
  "containerErrors env s c =
     (case GetSandbox s (ctr_Sandbox c) of
        None \<Rightarrow> [sandboxNotFound c]
      | Some sb \<Rightarrow>
          (case rt_ContainerStats env c (sb_CgroupParent sb) of
             Inl err \<Rightarrow> [err]
           | Inr ociStat \<Rightarrow> []))"

section \<open>Go's path functions on Unix\<close>

text \<open>
  \<open>filepath.Clean\<close>, \<open>filepath.Dir\<close> and \<open>filepath.Join\<close> of the standard library,
  for the separator \<open>/\<close> and no volume name. \<open>Clean\<close> works on the elements between
  separators: empty elements and \<open>.\<close> are dropped, \<open>..\<close> removes the element before
  it, is dropped at the root and is kept at the start of a relative path; the empty
  result is \<open>.\<close>. \<open>Dir\<close> cleans the path up to and including its last separator.
  \<open>Join\<close> starts at the first non-empty element, joins the rest with separators and
  cleans the result; with no non-empty element it is the empty string.
\<close>

fun splitSeparator :: "string \<Rightarrow> string list" where
  "splitSeparator [] = [[]]"
| "splitSeparator (x # xs) =
     (if x = CHR ''/'' then [] # splitSeparator xs
      else (case splitSeparator xs of
              [] \<Rightarrow> [[x]]
            | e # es \<Rightarrow> (x # e) # es))"

fun joinSeparator :: "string list \<Rightarrow> string" where
  "joinSeparator [] = []"
| "joinSeparator [e] = e"
| "joinSeparator (e # es) = e @ ''/'' @ joinSeparator es"

text \<open>One element of the path against the elements kept so far, the last one first.\<close>

definition cleanElement :: "bool \<Rightarrow> string list \<Rightarrow> string \<Rightarrow> string list" where
  "cleanElement rooted kept e =
     (if e = [] \<or> e = ''.'' then kept
      else if e = ''..'' then
        (case kept of
           [] \<Rightarrow> (if rooted then [] else [''..''])
         | k # ks \<Rightarrow> (if k = ''..'' then ''..'' # kept else ks))
      else e # kept)"

definition Clean_unix :: "string \<Rightarrow> string" where
  "Clean_unix path =
     (case path of
        [] \<Rightarrow> ''.''
      | x # _ \<Rightarrow>
          (let rooted = (x = CHR ''/'');
               out = joinSeparator (rev (foldl (cleanElement rooted) [] (splitSeparator path)))
           in if rooted then ''/'' @ out
              else if out = [] then ''.'' else out))"

definition Dir_unix :: "string \<Rightarrow> string" where
  "Dir_unix path = Clean_unix (rev (dropWhile (\<lambda>x. x \<noteq> CHR ''/'') (rev path)))"

definition Join_unix :: "string list \<Rightarrow> string" where
  "Join_unix elem =
     (case dropWhile (\<lambda>e. e = []) elem of
        [] \<Rightarrow> []
      | es \<Rightarrow> Clean_unix (joinSeparator es))"

section \<open>Concrete inputs\<close>

text \<open>
  A small server for evaluating the definitions: container \<open>c1\<close> runs in sandbox
  \<open>sb1\<close>, \<open>c2\<close> has stopped, and the sandbox of \<open>c3\<close> is not registered. The
  collaborators of \<open>ex_env None\<close> all succeed; those of \<open>ex_env (Some e)\<close> all
  fail with \<open>e\<close>. In \<open>ex_env_walk_fails\<close> the runtime succeeds and only the
  disk-usage walk fails.
\<close>

definition ex_linux :: LinuxContainerResources where
  "ex_linux = \<lparr>CPUPeriod = 100000, CPUQuota = 50000, CPUShares = 512,
     MemoryLimitInBytes = 1048576, OomScoreAdj = 0, CPUsetCPUs = ''0-1'', CPUsetMems = ''0''\<rparr>"

definition ex_cpuset_only :: LinuxContainerResources where
  "ex_cpuset_only = \<lparr>CPUPeriod = 0, CPUQuota = 0, CPUShares = 0,
     MemoryLimitInBytes = 0, OomScoreAdj = 0, CPUsetCPUs = ''2-3'', CPUsetMems = []\<rparr>"

definition ex_ctr :: "string \<Rightarrow> string \<Rightarrow> ContainerState \<Rightarrow> Container" where
  "ex_ctr cid sid st = \<lparr>ctr_ID = cid, ctr_Name = ''web'', ctr_Attempt = 1,
     ctr_Labels = [(''app'', ''web'')], ctr_Annotations = [],
     ctr_Sandbox = sid, ctr_MountPoint = ''/var/lib/storage/overlay/l1/merged'',
     ctr_State = st, ctr_Resources = None\<rparr>"

definition ex_srv :: "string \<Rightarrow> Server" where
  "ex_srv driver = \<lparr>srv_containers =
       [''c1'' \<mapsto> ex_ctr ''c1'' ''sb1'' Running,
        ''c2'' \<mapsto> ex_ctr ''c2'' ''sb1'' Stopped,
        ''c3'' \<mapsto> ex_ctr ''c3'' ''gone'' Created],
     srv_sandboxes = [''sb1'' \<mapsto> \<lparr>sb_ID = ''sb1'', sb_CgroupParent = ''/kubepods/pod1''\<rparr>],
     srv_Storage = driver, srv_updateCalls = []\<rparr>"

definition ex_oci :: OciContainerStats where
  "ex_oci = \<lparr>oci_SystemNano = 1700000000, oci_CPUNano = 250, oci_WorkingSetBytes = 4096\<rparr>"

definition ex_env :: "error option \<Rightarrow> Env" where
  "ex_env failure = \<lparr>rt_UpdateContainer = (\<lambda>c r. failure),
     rt_ContainerStats = (\<lambda>c cg. case failure of None \<Rightarrow> Inr ex_oci | Some e \<Rightarrow> Inl e),
     diskWalk = (\<lambda>p. case failure of None \<Rightarrow> Inr (8192, 12) | Some e \<Rightarrow> Inl e),
     CgroupHasMemorySwap = True,
     filepath_Dir = Dir_unix,
     filepath_Join = Join_unix\<rparr>"

definition ex_env_walk_fails :: Env where
  "ex_env_walk_fails = (ex_env None)\<lparr>diskWalk := (\<lambda>p. Inl (Error ''walk failed''))\<rparr>"

section \<open>Properties of the resource update\<close>

text \<open>
  Claim C3. When CPU shares, CPU period, CPU quota and the memory limit of the request
  are all zero, the converted spec has no shares, period, quota, memory limit or swap
  limit, and the two CPU set strings are the request's, copied as they are (whatever the
  swap probe says and whatever the OOM score adjustment is).
\<close>

theorem toOCIResources_all_zero:
  assumes "CPUShares r = 0" and "CPUPeriod r = 0" and "CPUQuota r = 0"
    and "MemoryLimitInBytes r = 0"
  shows "toOCIResources hasSwap r =
           \<lparr>res_CPU = Some \<lparr>cpu_Shares = None, cpu_Quota = None, cpu_Period = None,
                             cpu_Cpus = CPUsetCPUs r, cpu_Mems = CPUsetMems r\<rparr>,
            res_Memory = Some \<lparr>mem_Limit = None, mem_Swap = None\<rparr>\<rparr>"
  using assms by (simp add: toOCIResources_def)

text \<open>
  The property at a request that only names a CPU set.
\<close>

theorem toOCIResources_all_zero_witness:
  "CPUShares ex_cpuset_only = 0 \<and> CPUPeriod ex_cpuset_only = 0 \<and> CPUQuota ex_cpuset_only = 0 \<and>
   MemoryLimitInBytes ex_cpuset_only = 0 \<and>
   toOCIResources True ex_cpuset_only =
     \<lparr>res_CPU = Some \<lparr>cpu_Shares = None, cpu_Quota = None, cpu_Period = None,
                       cpu_Cpus = ''2-3'', cpu_Mems = []\<rparr>,
      res_Memory = Some \<lparr>mem_Limit = None, mem_Swap = None\<rparr>\<rparr>"
proof -
  have z: "CPUShares ex_cpuset_only = 0" "CPUPeriod ex_cpuset_only = 0"
    "CPUQuota ex_cpuset_only = 0" "MemoryLimitInBytes ex_cpuset_only = 0"
    by (simp_all add: ex_cpuset_only_def)
  have s: "CPUsetCPUs ex_cpuset_only = ''2-3''" "CPUsetMems ex_cpuset_only = []"
    by (simp_all add: ex_cpuset_only_def)
  from toOCIResources_all_zero [OF z, of True] z s show ?thesis
    by simp
qed

text \<open>
  Claim C4. The converted spec always has a memory section. With a non-zero memory
  limit its swap limit is absent when the host has no swap accounting and equals the
  memory limit when it has; with a zero memory limit the swap limit is absent.
\<close>

theorem toOCIResources_swap:
  "\<exists>m. res_Memory (toOCIResources hasSwap r) = Some m \<and>
     (MemoryLimitInBytes r \<noteq> 0 \<and> \<not> hasSwap \<longrightarrow> mem_Swap m = None) \<and>
     (MemoryLimitInBytes r \<noteq> 0 \<and> hasSwap \<longrightarrow> mem_Swap m = Some (MemoryLimitInBytes r)) \<and>
     (MemoryLimitInBytes r = 0 \<longrightarrow> mem_Swap m = None)"
  by (simp add: toOCIResources_def Let_def)

text \<open>
  The three cases at concrete requests.
\<close>

theorem toOCIResources_swap_witness:
  "MemoryLimitInBytes ex_linux \<noteq> 0 \<and> MemoryLimitInBytes ex_cpuset_only = 0 \<and>
   map_option mem_Swap (res_Memory (toOCIResources False ex_linux)) = Some None \<and>
   map_option mem_Swap (res_Memory (toOCIResources True ex_linux)) = Some (Some 1048576) \<and>
   map_option mem_Swap (res_Memory (toOCIResources True ex_cpuset_only)) = Some None"
proof -
  have nz: "MemoryLimitInBytes ex_linux \<noteq> 0" "MemoryLimitInBytes ex_linux = 1048576"
    by (simp_all add: ex_linux_def)
  have z: "MemoryLimitInBytes ex_cpuset_only = 0"
    by (simp add: ex_cpuset_only_def)
  from toOCIResources_swap [of False ex_linux] toOCIResources_swap [of True ex_linux]
    toOCIResources_swap [of True ex_cpuset_only] nz z
  show ?thesis by auto
qed

text \<open>
  Claim C1. For a registered, live container and a request with a Linux section: when
  the runtime's update call returns an error, that error is the result and the registry
  (with every container's resource snapshot) is as before; when the call succeeds, the
  result is nil and the container's snapshot is the converted spec. For any request,
  the registry changes only if the runtime's update call was made and returned nil.
\<close>

theorem updateResources_mirror_after_runtime:
  "(srv_containers s (ucr_ContainerID req) = Some c \<and> IsAlive c = None \<and>
      ucr_Linux req = Some linux \<and>
      rt_UpdateContainer env c (toOCIResources (CgroupHasMemorySwap env) linux) = Some err \<longrightarrow>
        fst (UpdateContainerResources env s req) = Some err \<and>
        srv_containers (snd (UpdateContainerResources env s req)) = srv_containers s)
   \<and> (srv_containers s (ucr_ContainerID req) = Some c \<and> IsAlive c = None \<and>
      ucr_Linux req = Some linux \<and>
      rt_UpdateContainer env c (toOCIResources (CgroupHasMemorySwap env) linux) = None \<longrightarrow>
        fst (UpdateContainerResources env s req) = None \<and>
        srv_containers (snd (UpdateContainerResources env s req)) =
          (srv_containers s)(ucr_ContainerID req \<mapsto>
             c\<lparr>ctr_Resources := Some (toOCIResources (CgroupHasMemorySwap env) linux)\<rparr>))
   \<and> (srv_containers (snd (UpdateContainerResources env s req)) \<noteq> srv_containers s \<longrightarrow>
        (\<exists>c' linux'. srv_containers s (ucr_ContainerID req) = Some c' \<and>
           ucr_Linux req = Some linux' \<and>
           rt_UpdateContainer env c' (toOCIResources (CgroupHasMemorySwap env) linux') = None))"
proof (intro conjI impI)
  assume "srv_containers (snd (UpdateContainerResources env s req)) \<noteq> srv_containers s"
  then show "\<exists>c' linux'. srv_containers s (ucr_ContainerID req) = Some c' \<and>
           ucr_Linux req = Some linux' \<and>
           rt_UpdateContainer env c' (toOCIResources (CgroupHasMemorySwap env) linux') = None"
    by (auto simp: UpdateContainerResources_def GetContainerFromShortID_def
        UpdateContainerLinuxResources_def Let_def split: option.splits sum.splits)
qed (simp_all add: UpdateContainerResources_def GetContainerFromShortID_def
        UpdateContainerLinuxResources_def Let_def)

text \<open>
  A failing runtime and a succeeding one, on the same request for container \<open>c1\<close>.
\<close>

theorem updateResources_mirror_after_runtime_witness:
  "fst (UpdateContainerResources (ex_env (Some (Error ''runtime update failed''))) (ex_srv ''overlay'')
          \<lparr>ucr_ContainerID = ''c1'', ucr_Linux = Some ex_linux\<rparr>) = Some (Error ''runtime update failed'')
   \<and> srv_containers (snd (UpdateContainerResources (ex_env (Some (Error ''runtime update failed'')))
          (ex_srv ''overlay'') \<lparr>ucr_ContainerID = ''c1'', ucr_Linux = Some ex_linux\<rparr>))
       = srv_containers (ex_srv ''overlay'')
   \<and> fst (UpdateContainerResources (ex_env None) (ex_srv ''overlay'')
          \<lparr>ucr_ContainerID = ''c1'', ucr_Linux = Some ex_linux\<rparr>) = None
   \<and> srv_containers (snd (UpdateContainerResources (ex_env None) (ex_srv ''overlay'')
          \<lparr>ucr_ContainerID = ''c1'', ucr_Linux = Some ex_linux\<rparr>)) \<noteq> srv_containers (ex_srv ''overlay'')
   \<and> rt_UpdateContainer (ex_env None) (ex_ctr ''c1'' ''sb1'' Running)
        (toOCIResources (CgroupHasMemorySwap (ex_env None)) ex_linux) = None"
proof -
  define req where "req = \<lparr>ucr_ContainerID = ''c1'', ucr_Linux = Some ex_linux\<rparr>"
  define c where "c = ex_ctr ''c1'' ''sb1'' Running"
  define srv where "srv = ex_srv ''overlay''"
  define bad where "bad = ex_env (Some (Error ''runtime update failed''))"
  define good where "good = ex_env None"
  have found: "srv_containers srv (ucr_ContainerID req) = Some c"
    by (simp add: srv_def req_def c_def ex_srv_def)
  have live: "IsAlive c = None"
    by (simp add: IsAlive_def c_def ex_ctr_def)
  have linux: "ucr_Linux req = Some ex_linux"
    by (simp add: req_def)
  have fails: "rt_UpdateContainer bad c (toOCIResources (CgroupHasMemorySwap bad) ex_linux)
      = Some (Error ''runtime update failed'')"
    by (simp add: bad_def ex_env_def)
  have succeeds: "rt_UpdateContainer good c (toOCIResources (CgroupHasMemorySwap good) ex_linux) = None"
    by (simp add: good_def ex_env_def)
  have unresolved: "ctr_Resources c = None"
    by (simp add: c_def ex_ctr_def)
  note failing = updateResources_mirror_after_runtime
      [of srv req c ex_linux bad "Error ''runtime update failed''", THEN conjunct1, rule_format]
  note passing = updateResources_mirror_after_runtime
      [of srv req c ex_linux good "Error ''runtime update failed''", THEN conjunct2, THEN conjunct1,
        rule_format]
  have r1: "fst (UpdateContainerResources bad srv req) = Some (Error ''runtime update failed'')"
    and r2: "srv_containers (snd (UpdateContainerResources bad srv req)) = srv_containers srv"
    using failing found live linux fails by blast+
  have r3: "fst (UpdateContainerResources good srv req) = None"
    and r4: "srv_containers (snd (UpdateContainerResources good srv req)) =
      (srv_containers srv)(ucr_ContainerID req \<mapsto>
         c\<lparr>ctr_Resources := Some (toOCIResources (CgroupHasMemorySwap good) ex_linux)\<rparr>)"
    using passing found live linux succeeds by blast+
  have r5: "srv_containers (snd (UpdateContainerResources good srv req)) \<noteq> srv_containers srv"
  proof
    assume "srv_containers (snd (UpdateContainerResources good srv req)) = srv_containers srv"
    then have "srv_containers (snd (UpdateContainerResources good srv req)) (ucr_ContainerID req)
        = Some c"
      by (simp only: found)
    then have "c\<lparr>ctr_Resources := Some (toOCIResources (CgroupHasMemorySwap good) ex_linux)\<rparr> = c"
      by (simp add: r4)
    then have "ctr_Resources (c\<lparr>ctr_Resources := Some (toOCIResources (CgroupHasMemorySwap good) ex_linux)\<rparr>)
        = ctr_Resources c"
      by (rule arg_cong)
    then show False
      by (simp add: unresolved)
  qed
  from r1 r2 r3 r5 succeeds show ?thesis
    unfolding req_def c_def srv_def bad_def good_def by blast
qed

text \<open>
  Claim C2. For a registered container whose liveness check fails, the state is neither
  created nor running, the call returns the error
  \<open>container is not created or running: ...\<close> wrapping the check's error, and the
  server state is the one before the call: no runtime update call is recorded and
  nothing else has changed.
\<close>

theorem updateResources_not_live:
  assumes "srv_containers s (ucr_ContainerID req) = Some c"
    and "IsAlive c = Some e"
  shows "ctr_State c \<noteq> Created \<and> ctr_State c \<noteq> Running \<and>
         UpdateContainerResources env s req =
           (Some (Error (''container is not created or running: '' @ message e)), s) \<and>
         srv_updateCalls (snd (UpdateContainerResources env s req)) = srv_updateCalls s \<and>
         srv_containers (snd (UpdateContainerResources env s req)) = srv_containers s"
proof -
  from assms(2) have "ctr_State c \<noteq> Created \<and> ctr_State c \<noteq> Running"
    by (simp add: IsAlive_def split: if_splits)
  moreover from assms have "UpdateContainerResources env s req =
      (Some (Error (''container is not created or running: '' @ message e)), s)"
    by (simp add: UpdateContainerResources_def GetContainerFromShortID_def)
  ultimately show ?thesis by simp
qed

text \<open>
  The stopped container \<open>c2\<close>.
\<close>

theorem updateResources_not_live_witness:
  "IsAlive (ex_ctr ''c2'' ''sb1'' Stopped) = Some (Error ''container c2 is not live'') \<and>
   UpdateContainerResources (ex_env None) (ex_srv ''overlay'')
       \<lparr>ucr_ContainerID = ''c2'', ucr_Linux = Some ex_linux\<rparr> =
     (Some (Error ''container is not created or running: container c2 is not live''),
      ex_srv ''overlay'') \<and>
   srv_updateCalls (snd (UpdateContainerResources (ex_env None) (ex_srv ''overlay'')
       \<lparr>ucr_ContainerID = ''c2'', ucr_Linux = Some ex_linux\<rparr>)) = []"
proof -
  define req where "req = \<lparr>ucr_ContainerID = ''c2'', ucr_Linux = Some ex_linux\<rparr>"
  define c2 where "c2 = ex_ctr ''c2'' ''sb1'' Stopped"
  define srv where "srv = ex_srv ''overlay''"
  have found: "srv_containers srv (ucr_ContainerID req) = Some c2"
    by (simp add: srv_def req_def c2_def ex_srv_def)
  have dead: "IsAlive c2 = Some (Error ''container c2 is not live'')"
    by (simp add: IsAlive_def c2_def ex_ctr_def)
  have none: "srv_updateCalls srv = []"
    by (simp add: srv_def ex_srv_def)
  from updateResources_not_live [OF found dead, of "ex_env None"] dead none show ?thesis
    unfolding req_def c2_def srv_def by simp
qed

text \<open>
  Claim C10. For a registered, live container and a request without a Linux section,
  the call returns nil and leaves the server state as it was: no runtime update call is
  recorded and no resource snapshot has changed.
\<close>

theorem updateResources_without_linux:
  assumes "srv_containers s (ucr_ContainerID req) = Some c"
    and "IsAlive c = None"
    and "ucr_Linux req = None"
  shows "UpdateContainerResources env s req = (None, s)"
  using assms
  by (simp add: UpdateContainerResources_def GetContainerFromShortID_def)

text \<open>
  Container \<open>c1\<close> with an empty request.
\<close>

theorem updateResources_without_linux_witness:
  "IsAlive (ex_ctr ''c1'' ''sb1'' Running) = None \<and>
   UpdateContainerResources (ex_env None) (ex_srv ''overlay'')
      \<lparr>ucr_ContainerID = ''c1'', ucr_Linux = None\<rparr> = (None, ex_srv ''overlay'')"
proof -
  have c1: "srv_containers (ex_srv ''overlay'')
      (ucr_ContainerID \<lparr>ucr_ContainerID = ''c1'', ucr_Linux = None\<rparr>)
        = Some (ex_ctr ''c1'' ''sb1'' Running)"
    by (simp add: ex_srv_def)
  have live: "IsAlive (ex_ctr ''c1'' ''sb1'' Running) = None"
    by (simp add: IsAlive_def ex_ctr_def)
  from updateResources_without_linux [OF c1 live, of "ex_env None"] live show ?thesis
    by simp
qed

section \<open>Properties of the statistics\<close>

text \<open>
  The loop only appends to its accumulators, so the result for a batch is the
  concatenation of the results for its containers, in input order.
\<close>

lemma statsLoop_accumulates:
  "statsLoop env s cs stats errs logged =
     (case statsLoop env s cs [] [] [] of
        (S, E, L) \<Rightarrow> (stats @ S, errs @ E, logged @ L))"
proof (induction cs arbitrary: stats errs logged)
  case Nil
  then show ?case by simp
next
  case (Cons c cs)
  show ?case
  proof (cases "GetSandbox s (ctr_Sandbox c)")
    case None
    then show ?thesis
      using Cons.IH [of stats "errs @ [sandboxNotFound c]" logged]
        Cons.IH [of "[]" "[sandboxNotFound c]" "[]"]
      by (simp split: prod.splits)
  next
    case (Some sb)
    show ?thesis
    proof (cases "rt_ContainerStats env c (sb_CgroupParent sb)")
      case (Inl err)
      then show ?thesis
        using Some Cons.IH [of stats "errs @ [err]" logged] Cons.IH [of "[]" "[err]" "[]"]
        by (simp split: prod.splits)
    next
      case (Inr ociStat)
      obtain st warnings where b: "buildContainerStats env s ociStat c = (st, warnings)"
        by (cases "buildContainerStats env s ociStat c")
      then show ?thesis
        using Some Inr Cons.IH [of "stats @ [st]" errs "logged @ warnings"]
          Cons.IH [of "[st]" "[]" warnings]
        by (simp split: prod.splits)
    qed
  qed
qed

lemma CRIStats_Nil: "CRIStatsForContainers env s [] = ([], [], [])"
  by (simp add: CRIStatsForContainers_def)

lemma CRIStats_Cons:
  "CRIStatsForContainers env s (c # cs) =
     (case CRIStatsForContainers env s [c] of
        (S1, E1, L1) \<Rightarrow>
          (case CRIStatsForContainers env s cs of
             (S2, E2, L2) \<Rightarrow> (S1 @ S2, E1 @ E2, L1 @ L2)))"
proof (cases "GetSandbox s (ctr_Sandbox c)")
  case None
  then show ?thesis
    using statsLoop_accumulates [of env s cs "[]" "[sandboxNotFound c]" "[]"]
    by (simp add: CRIStatsForContainers_def split: prod.splits)
next
  case (Some sb)
  show ?thesis
  proof (cases "rt_ContainerStats env c (sb_CgroupParent sb)")
    case (Inl err)
    then show ?thesis
      using Some statsLoop_accumulates [of env s cs "[]" "[err]" "[]"]
      by (simp add: CRIStatsForContainers_def split: prod.splits)
  next
    case (Inr ociStat)
    obtain st warnings where b: "buildContainerStats env s ociStat c = (st, warnings)"
      by (cases "buildContainerStats env s ociStat c")
    then show ?thesis
      using Some Inr statsLoop_accumulates [of env s cs "[st]" "[]" warnings]
      by (simp add: CRIStatsForContainers_def split: prod.splits)
  qed
qed

lemma CRIStats_append:
  "CRIStatsForContainers env s (xs @ ys) =
     (case CRIStatsForContainers env s xs of
        (S1, E1, L1) \<Rightarrow>
          (case CRIStatsForContainers env s ys of
             (S2, E2, L2) \<Rightarrow> (S1 @ S2, E1 @ E2, L1 @ L2)))"
proof (induction xs)
  case Nil
  then show ?case by (simp add: CRIStats_Nil split: prod.splits)
next
  case (Cons x xs)
  then show ?case
    by (simp add: CRIStats_Cons [of env s x "xs @ ys"] CRIStats_Cons [of env s x xs]
        split: prod.splits)
qed


lemma CRIStats_single_unresolved:
  "GetSandbox s (ctr_Sandbox c) = None \<Longrightarrow>
     CRIStatsForContainers env s [c] = ([], [sandboxNotFound c], [])"
  by (simp add: CRIStatsForContainers_def)

lemma CRIStats_single_failed:
  "GetSandbox s (ctr_Sandbox c) = Some sb \<Longrightarrow>
   rt_ContainerStats env c (sb_CgroupParent sb) = Inl err \<Longrightarrow>
     CRIStatsForContainers env s [c] = ([], [err], [])"
  by (simp add: CRIStatsForContainers_def)

lemma CRIStats_single_built:
  "GetSandbox s (ctr_Sandbox c) = Some sb \<Longrightarrow>
   rt_ContainerStats env c (sb_CgroupParent sb) = Inr ociStat \<Longrightarrow>
     CRIStatsForContainers env s [c] =
       ([fst (buildContainerStats env s ociStat c)], [], snd (buildContainerStats env s ociStat c))"
  by (simp add: CRIStatsForContainers_def split: prod.splits)

lemma CRIStats_all_hasStats:
  "\<forall>x \<in> set xs. hasStats env s x \<Longrightarrow>
     length (fst (CRIStatsForContainers env s xs)) = length xs \<and>
     fst (snd (CRIStatsForContainers env s xs)) = []"
proof (induction xs)
  case Nil
  then show ?case by (simp add: CRIStats_Nil)
next
  case (Cons x xs)
  from Cons.prems have "hasStats env s x" by simp
  then obtain sb ociStat where "GetSandbox s (ctr_Sandbox x) = Some sb"
    and "rt_ContainerStats env x (sb_CgroupParent sb) = Inr ociStat"
    by (auto simp: hasStats_def split: option.splits sum.splits)
  then have one: "CRIStatsForContainers env s [x] =
      ([fst (buildContainerStats env s ociStat x)], [], snd (buildContainerStats env s ociStat x))"
    by (rule CRIStats_single_built)
  from Cons have "length (fst (CRIStatsForContainers env s xs)) = length xs"
    and "fst (snd (CRIStatsForContainers env s xs)) = []"
    by simp_all
  then show ?case
    by (simp add: CRIStats_Cons [of env s x xs] one case_prod_beta)
qed

lemma sandboxNotFound_names_container: "sublist (ctr_ID c) (message (sandboxNotFound c))"
  by (simp only: sandboxNotFound_def error.sel sublist_appendI)

text \<open>
  Claim C5. In a batch where one container has no registered sandbox and every other
  container has its sandbox and a successful runtime stats query, the call returns one
  record fewer than there are containers and exactly one error, the sandbox-not-found
  error for that container, whose message contains the container's ID. The records
  are those of the batch without the failing container: it stops nothing.
\<close>

theorem CRIStats_one_missing_sandbox:
  assumes "cs = pre @ c # post"
    and "GetSandbox s (ctr_Sandbox c) = None"
    and "\<forall>x \<in> set (pre @ post). hasStats env s x"
  shows "Suc (length (fst (CRIStatsForContainers env s cs))) = length cs \<and>
         (\<exists>e. fst (snd (CRIStatsForContainers env s cs)) = [e] \<and>
               e = sandboxNotFound c \<and> sublist (ctr_ID c) (message e)) \<and>
         fst (CRIStatsForContainers env s cs) = fst (CRIStatsForContainers env s (pre @ post))"
proof -
  from assms(3) have p: "\<forall>x \<in> set pre. hasStats env s x" and q: "\<forall>x \<in> set post. hasStats env s x"
    by simp_all
  note P = CRIStats_all_hasStats [OF p] and Q = CRIStats_all_hasStats [OF q]
  note one = CRIStats_single_unresolved [OF assms(2), of env]
  have whole: "CRIStatsForContainers env s cs =
      (fst (CRIStatsForContainers env s pre) @ fst (CRIStatsForContainers env s post),
       [sandboxNotFound c],
       snd (snd (CRIStatsForContainers env s pre)) @ snd (snd (CRIStatsForContainers env s post)))"
    using P Q
    by (simp add: assms(1) CRIStats_append [of env s pre "c # post"]
        CRIStats_Cons [of env s c post] one case_prod_beta)
  have rest: "fst (CRIStatsForContainers env s (pre @ post)) =
      fst (CRIStatsForContainers env s pre) @ fst (CRIStatsForContainers env s post)"
    by (simp add: CRIStats_append [of env s pre post] case_prod_beta)
  have len: "length cs = Suc (length pre + length post)"
    by (simp add: assms(1))
  show ?thesis
    using P Q by (simp add: whole rest len sandboxNotFound_names_container)
qed

text \<open>
  A batch of three, the middle one without a sandbox.
\<close>

theorem CRIStats_one_missing_sandbox_witness:
  "GetSandbox (ex_srv ''overlay'') (ctr_Sandbox (ex_ctr ''c3'' ''gone'' Created)) = None \<and>
   hasStats (ex_env None) (ex_srv ''overlay'') (ex_ctr ''c1'' ''sb1'' Running) \<and>
   Suc (length (fst (CRIStatsForContainers (ex_env None) (ex_srv ''overlay'')
     [ex_ctr ''c1'' ''sb1'' Running, ex_ctr ''c3'' ''gone'' Created, ex_ctr ''c1'' ''sb1'' Running])))
     = 3 \<and>
   fst (snd (CRIStatsForContainers (ex_env None) (ex_srv ''overlay'')
     [ex_ctr ''c1'' ''sb1'' Running, ex_ctr ''c3'' ''gone'' Created, ex_ctr ''c1'' ''sb1'' Running]))
     = [Error ''unable to get stats for container c3: sandbox gone not found'']"
proof -
  define c1 where "c1 = ex_ctr ''c1'' ''sb1'' Running"
  define c3 where "c3 = ex_ctr ''c3'' ''gone'' Created"
  define srv where "srv = ex_srv ''overlay''"
  define good where "good = ex_env None"
  have batch: "[c1, c3, c1] = [c1] @ c3 # [c1]"
    by simp
  have missing: "GetSandbox srv (ctr_Sandbox c3) = None"
    by (simp add: GetSandbox_def srv_def c3_def ex_srv_def ex_ctr_def)
  have ok: "hasStats good srv c1"
    by (simp add: hasStats_def GetSandbox_def srv_def c1_def good_def ex_srv_def ex_ctr_def
        ex_env_def)
  then have others: "\<forall>x \<in> set ([c1] @ [c1]). hasStats good srv x"
    by simp
  have msg: "sandboxNotFound c3 = Error ''unable to get stats for container c3: sandbox gone not found''"
    by (simp add: sandboxNotFound_def c3_def ex_ctr_def)
  from CRIStats_one_missing_sandbox [OF batch missing others]
  have "Suc (length (fst (CRIStatsForContainers good srv [c1, c3, c1]))) = 3"
    and "fst (snd (CRIStatsForContainers good srv [c1, c3, c1])) = [sandboxNotFound c3]"
    by auto
  with missing ok msg show ?thesis
    unfolding c1_def c3_def srv_def good_def by simp
qed

text \<open>
  Claim C9, as stated, fails: an error of the runtime's stats query is appended as the
  runtime returned it. Here the runtime fails with \<open>boom\<close> for container
  \<open>c1\<close>, and the one error of the batch does not contain \<open>c1\<close>.
\<close>

theorem CRIStats_runtime_error_counterexample:
  "fst (snd (CRIStatsForContainers (ex_env (Some (Error ''boom''))) (ex_srv ''overlay'')
      [ex_ctr ''c1'' ''sb1'' Running])) = [Error ''boom''] \<and>
   ctr_ID (ex_ctr ''c1'' ''sb1'' Running) = ''c1'' \<and>
   \<not> sublist ''c1'' (message (Error ''boom''))"
proof -
  have sb: "GetSandbox (ex_srv ''overlay'') (ctr_Sandbox (ex_ctr ''c1'' ''sb1'' Running))
      = Some \<lparr>sb_ID = ''sb1'', sb_CgroupParent = ''/kubepods/pod1''\<rparr>"
    by (simp add: GetSandbox_def ex_srv_def ex_ctr_def)
  have rt: "rt_ContainerStats (ex_env (Some (Error ''boom''))) (ex_ctr ''c1'' ''sb1'' Running)
      (sb_CgroupParent \<lparr>sb_ID = ''sb1'', sb_CgroupParent = ''/kubepods/pod1''\<rparr>) = Inl (Error ''boom'')"
    by (simp add: ex_env_def)
  have errs: "fst (snd (CRIStatsForContainers (ex_env (Some (Error ''boom''))) (ex_srv ''overlay'')
      [ex_ctr ''c1'' ''sb1'' Running])) = [Error ''boom'']"
    by (simp add: CRIStats_single_failed [OF sb rt])
  have name: "ctr_ID (ex_ctr ''c1'' ''sb1'' Running) = ''c1''"
    by (simp add: ex_ctr_def)
  have absent: "\<not> sublist ''c1'' (message (Error ''boom''))"
    by (simp add: sublist_Cons_right)
  from errs name absent show ?thesis by simp
qed

text \<open>
  Claim C9, amended. The error sequence of a batch is, in input order, the
  sandbox-not-found error of each container without a registered sandbox and the
  runtime's own error of each container whose stats query failed, and nothing else.
  So every listed error comes from a container of the batch; the error of a container
  without a sandbox is listed and its message contains that container's ID; and the
  error that the runtime returned for a container is listed exactly as returned.
\<close>

theorem CRIStats_errors_exact:
  "fst (snd (CRIStatsForContainers env s cs)) = concat (map (containerErrors env s) cs) \<and>
   (\<forall>e \<in> set (fst (snd (CRIStatsForContainers env s cs))).
      \<exists>c \<in> set cs.
        (GetSandbox s (ctr_Sandbox c) = None \<and> e = sandboxNotFound c \<and>
           sublist (ctr_ID c) (message e)) \<or>
        (\<exists>sb. GetSandbox s (ctr_Sandbox c) = Some sb \<and>
           rt_ContainerStats env c (sb_CgroupParent sb) = Inl e)) \<and>
   (\<forall>c \<in> set cs. GetSandbox s (ctr_Sandbox c) = None \<longrightarrow>
      sandboxNotFound c \<in> set (fst (snd (CRIStatsForContainers env s cs))) \<and>
      sublist (ctr_ID c) (message (sandboxNotFound c))) \<and>
   (\<forall>c \<in> set cs. \<forall>sb err.
      GetSandbox s (ctr_Sandbox c) = Some sb \<and>
      rt_ContainerStats env c (sb_CgroupParent sb) = Inl err \<longrightarrow>
        err \<in> set (fst (snd (CRIStatsForContainers env s cs))))"
proof -
  have one: "fst (snd (CRIStatsForContainers env s [c])) = containerErrors env s c" for c
  proof (cases "GetSandbox s (ctr_Sandbox c)")
    case None
    then show ?thesis
      by (simp add: CRIStats_single_unresolved containerErrors_def)
  next
    case (Some sb)
    then show ?thesis
      by (cases "rt_ContainerStats env c (sb_CgroupParent sb)")
        (simp_all add: CRIStats_single_failed CRIStats_single_built containerErrors_def)
  qed
  have exact: "fst (snd (CRIStatsForContainers env s cs)) = concat (map (containerErrors env s) cs)"
  proof (induction cs)
    case Nil
    then show ?case by (simp add: CRIStats_Nil)
  next
    case (Cons x xs)
    then show ?case
      by (simp add: CRIStats_Cons [of env s x xs] case_prod_beta one)
  qed
  have origin: "\<exists>c \<in> set cs.
        (GetSandbox s (ctr_Sandbox c) = None \<and> e = sandboxNotFound c \<and>
           sublist (ctr_ID c) (message e)) \<or>
        (\<exists>sb. GetSandbox s (ctr_Sandbox c) = Some sb \<and>
           rt_ContainerStats env c (sb_CgroupParent sb) = Inl e)"
    if "e \<in> set (fst (snd (CRIStatsForContainers env s cs)))" for e
  proof -
    from that obtain c where c: "c \<in> set cs" and e: "e \<in> set (containerErrors env s c)"
      by (auto simp: exact)
    show ?thesis
    proof (cases "GetSandbox s (ctr_Sandbox c)")
      case None
      with e have "e = sandboxNotFound c"
        by (simp add: containerErrors_def)
      with None c show ?thesis
        by (auto simp: sandboxNotFound_names_container)
    next
      case (Some sb)
      with e have "rt_ContainerStats env c (sb_CgroupParent sb) = Inl e"
        by (cases "rt_ContainerStats env c (sb_CgroupParent sb)")
          (simp_all add: containerErrors_def)
      with Some c show ?thesis by auto
    qed
  qed
  have unresolved: "sandboxNotFound c \<in> set (fst (snd (CRIStatsForContainers env s cs)))"
    if "c \<in> set cs" and "GetSandbox s (ctr_Sandbox c) = None" for c
  proof -
    from that(2) have "sandboxNotFound c \<in> set (containerErrors env s c)"
      by (simp add: containerErrors_def)
    with that(1) show ?thesis
      by (auto simp: exact)
  qed
  have failed: "err \<in> set (fst (snd (CRIStatsForContainers env s cs)))"
    if "c \<in> set cs" and "GetSandbox s (ctr_Sandbox c) = Some sb"
      and "rt_ContainerStats env c (sb_CgroupParent sb) = Inl err" for c sb err
  proof -
    from that(2,3) have "err \<in> set (containerErrors env s c)"
      by (simp add: containerErrors_def)
    with that(1) show ?thesis
      by (auto simp: exact)
  qed
  from exact origin unresolved failed show ?thesis
    by (simp add: sandboxNotFound_names_container)
qed

text \<open>
  A failing runtime for \<open>c1\<close> and a missing sandbox for \<open>c3\<close>: two errors, in input
  order.
\<close>

theorem CRIStats_errors_exact_witness:
  "GetSandbox (ex_srv ''overlay'') (ctr_Sandbox (ex_ctr ''c3'' ''gone'' Created)) = None \<and>
   rt_ContainerStats (ex_env (Some (Error ''boom''))) (ex_ctr ''c1'' ''sb1'' Running)
      ''/kubepods/pod1'' = Inl (Error ''boom'') \<and>
   fst (snd (CRIStatsForContainers (ex_env (Some (Error ''boom''))) (ex_srv ''overlay'')
      [ex_ctr ''c1'' ''sb1'' Running, ex_ctr ''c3'' ''gone'' Created])) =
     [Error ''boom'', Error ''unable to get stats for container c3: sandbox gone not found''] \<and>
   Error ''boom'' \<in> set (fst (snd (CRIStatsForContainers (ex_env (Some (Error ''boom'')))
      (ex_srv ''overlay'') [ex_ctr ''c1'' ''sb1'' Running, ex_ctr ''c3'' ''gone'' Created]))) \<and>
   sandboxNotFound (ex_ctr ''c3'' ''gone'' Created) \<in> set (fst (snd (CRIStatsForContainers
      (ex_env (Some (Error ''boom''))) (ex_srv ''overlay'')
      [ex_ctr ''c1'' ''sb1'' Running, ex_ctr ''c3'' ''gone'' Created])))"
proof -
  define c1 where "c1 = ex_ctr ''c1'' ''sb1'' Running"
  define c3 where "c3 = ex_ctr ''c3'' ''gone'' Created"
  define srv where "srv = ex_srv ''overlay''"
  define bad where "bad = ex_env (Some (Error ''boom''))"
  define errs where "errs = fst (snd (CRIStatsForContainers bad srv [c1, c3]))"
  have missing: "GetSandbox srv (ctr_Sandbox c3) = None"
    by (simp add: GetSandbox_def srv_def c3_def ex_srv_def ex_ctr_def)
  have sb: "GetSandbox srv (ctr_Sandbox c1)
      = Some \<lparr>sb_ID = ''sb1'', sb_CgroupParent = ''/kubepods/pod1''\<rparr>"
    by (simp add: GetSandbox_def srv_def c1_def ex_srv_def ex_ctr_def)
  have rt: "rt_ContainerStats bad c1 ''/kubepods/pod1'' = Inl (Error ''boom'')"
    by (simp add: bad_def ex_env_def)
  have msg: "sandboxNotFound c3 = Error ''unable to get stats for container c3: sandbox gone not found''"
    by (simp add: sandboxNotFound_def c3_def ex_ctr_def)
  note all = CRIStats_errors_exact [of bad srv "[c1, c3]", folded errs_def]
  from all have "errs = concat (map (containerErrors bad srv) [c1, c3])"
    by (rule conjunct1)
  then have listed: "errs = [Error ''boom'', sandboxNotFound c3]"
    by (simp add: containerErrors_def missing sb rt)
  from all have "\<forall>c \<in> set [c1, c3]. GetSandbox srv (ctr_Sandbox c) = None \<longrightarrow>
      sandboxNotFound c \<in> set errs \<and> sublist (ctr_ID c) (message (sandboxNotFound c))"
    by blast
  with missing have third: "sandboxNotFound c3 \<in> set errs"
    by simp
  from all have "\<forall>c \<in> set [c1, c3]. \<forall>sb err.
      GetSandbox srv (ctr_Sandbox c) = Some sb \<and>
      rt_ContainerStats bad c (sb_CgroupParent sb) = Inl err \<longrightarrow> err \<in> set errs"
    by blast
  with sb rt have first: "Error ''boom'' \<in> set errs"
    by auto
  from missing rt listed first third msg show ?thesis
    unfolding errs_def c1_def c3_def srv_def bad_def by simp
qed

text \<open>
  Claim C6. In the single-container entry point, a non-empty error sequence gives its
  first error, whatever records came with it; an empty error sequence with a number of
  records other than one gives the error
  \<open>Unknown error happened finding container stats for <id>\<close>; and for a
  registered container the entry point returns exactly what these rules make of the
  batch call on that one container.
\<close>

theorem ContainerStats_single_contract:
  "(errs \<noteq> [] \<longrightarrow> statsResponse cid stats errs = Inl (hd errs)) \<and>
   (errs = [] \<and> length stats \<noteq> 1 \<longrightarrow>
      statsResponse cid stats errs =
        Inl (Error (''Unknown error happened finding container stats for '' @ cid))) \<and>
   (srv_containers s (csq_ContainerID req) = Some c \<longrightarrow>
      fst (ContainerStats_call env s req) =
        statsResponse (csq_ContainerID req) (fst (CRIStatsForContainers env s [c]))
          (fst (snd (CRIStatsForContainers env s [c]))))"
proof (intro conjI impI)
  assume "errs \<noteq> []"
  then show "statsResponse cid stats errs = Inl (hd errs)"
    by (cases errs) (simp_all add: statsResponse_def)
next
  assume "errs = [] \<and> length stats \<noteq> 1"
  then show "statsResponse cid stats errs =
      Inl (Error (''Unknown error happened finding container stats for '' @ cid))"
    by (cases stats; cases "tl stats") (auto simp: statsResponse_def)
next
  assume "srv_containers s (csq_ContainerID req) = Some c"
  then show "fst (ContainerStats_call env s req) =
      statsResponse (csq_ContainerID req) (fst (CRIStatsForContainers env s [c]))
        (fst (snd (CRIStatsForContainers env s [c])))"
    by (simp add: ContainerStats_call_def GetContainerFromShortID_def case_prod_beta)
qed

text \<open>
  Two errors with one record; nothing at all; and a failing runtime behind the entry
  point.
\<close>

theorem ContainerStats_single_contract_witness:
  "statsResponse ''c1'' [fst (buildContainerStats (ex_env None) (ex_srv ''overlay'') ex_oci
        (ex_ctr ''c1'' ''sb1'' Running))] [Error ''first'', Error ''second'']
     = Inl (Error ''first'') \<and>
   statsResponse ''c1'' [] [] =
     Inl (Error ''Unknown error happened finding container stats for c1'') \<and>
   fst (ContainerStats_call (ex_env (Some (Error ''boom''))) (ex_srv ''overlay'')
        \<lparr>csq_ContainerID = ''c1''\<rparr>) = Inl (Error ''boom'')"
proof -
  define c1 where "c1 = ex_ctr ''c1'' ''sb1'' Running"
  define srv where "srv = ex_srv ''overlay''"
  define bad where "bad = ex_env (Some (Error ''boom''))"
  define st where "st = fst (buildContainerStats (ex_env None) srv ex_oci c1)"
  define req where "req = \<lparr>csq_ContainerID = ''c1''\<rparr>"
  have a: "statsResponse ''c1'' [st] [Error ''first'', Error ''second''] = Inl (Error ''first'')"
    using ContainerStats_single_contract
      [of "[Error ''first'', Error ''second'']" "''c1''" "[st]", THEN conjunct1]
    by simp
  have b: "statsResponse ''c1'' [] [] =
      Inl (Error ''Unknown error happened finding container stats for c1'')"
    using ContainerStats_single_contract
      [of "[]" "''c1''" "[] :: ContainerStats list", THEN conjunct2, THEN conjunct1]
    by simp
  have found: "srv_containers srv (csq_ContainerID req) = Some c1"
    by (simp add: srv_def req_def c1_def ex_srv_def)
  have sb: "GetSandbox srv (ctr_Sandbox c1)
      = Some \<lparr>sb_ID = ''sb1'', sb_CgroupParent = ''/kubepods/pod1''\<rparr>"
    by (simp add: GetSandbox_def srv_def c1_def ex_srv_def ex_ctr_def)
  have rt: "rt_ContainerStats bad c1
      (sb_CgroupParent \<lparr>sb_ID = ''sb1'', sb_CgroupParent = ''/kubepods/pod1''\<rparr>) = Inl (Error ''boom'')"
    by (simp add: bad_def ex_env_def)
  have one: "CRIStatsForContainers bad srv [c1] = ([], [Error ''boom''], [])"
    by (rule CRIStats_single_failed [OF sb rt])
  have "fst (ContainerStats_call bad srv req) =
      statsResponse (csq_ContainerID req) (fst (CRIStatsForContainers bad srv [c1]))
        (fst (snd (CRIStatsForContainers bad srv [c1])))"
    using ContainerStats_single_contract
      [of _ _ _ srv req c1 bad, THEN conjunct2, THEN conjunct2] found
    by blast
  also have "\<dots> = statsResponse ''c1'' [] [Error ''boom'']"
    by (simp add: one req_def)
  also have "\<dots> = Inl (Error ''boom'')"
    using ContainerStats_single_contract
      [of "[Error ''boom'']" "''c1''" "[]", THEN conjunct1]
    by simp
  finally have c: "fst (ContainerStats_call bad srv req) = Inl (Error ''boom'')" .
  from a b c show ?thesis
    unfolding c1_def srv_def bad_def st_def req_def by simp
qed

text \<open>
  Claim C7. For a registered container whose sandbox is registered and whose runtime
  stats query succeeds, the entry point returns the record that
  \<open>buildContainerStats\<close> makes of the runtime's figures; its CPU and memory sections
  are present, and its writable-layer section is absent whenever the storage driver is
  not \<open>overlay\<close>.
\<close>

theorem ContainerStats_sections:
  assumes "srv_containers s (csq_ContainerID req) = Some c"
    and "GetSandbox s (ctr_Sandbox c) = Some sb"
    and "rt_ContainerStats env c (sb_CgroupParent sb) = Inr ociStat"
  shows "fst (ContainerStats_call env s req) =
           Inr \<lparr>csr_Stats = Some (fst (buildContainerStats env s ociStat c))\<rparr> \<and>
         cs_CPU (fst (buildContainerStats env s ociStat c)) \<noteq> None \<and>
         cs_Memory (fst (buildContainerStats env s ociStat c)) \<noteq> None \<and>
         (srv_Storage s \<noteq> ''overlay'' \<longrightarrow>
            cs_WritableLayer (fst (buildContainerStats env s ociStat c)) = None)"
proof -
  have "fst (ContainerStats_call env s req) =
      Inr \<lparr>csr_Stats = Some (fst (buildContainerStats env s ociStat c))\<rparr>"
    using assms(1)
    by (simp add: ContainerStats_call_def GetContainerFromShortID_def
        CRIStats_single_built [OF assms(2,3)] statsResponse_def)
  moreover have "cs_CPU (fst (buildContainerStats env s ociStat c)) \<noteq> None"
    and "cs_Memory (fst (buildContainerStats env s ociStat c)) \<noteq> None"
    by (simp_all add: buildContainerStats_def case_prod_beta)
  moreover have "srv_Storage s \<noteq> ''overlay'' \<longrightarrow>
      cs_WritableLayer (fst (buildContainerStats env s ociStat c)) = None"
    by (simp add: buildContainerStats_def writableLayerOf_def)
  ultimately show ?thesis by blast
qed

text \<open>
  Container \<open>c1\<close> on the \<open>vfs\<close> driver.
\<close>

theorem ContainerStats_sections_witness:
  "srv_Storage (ex_srv ''vfs'') \<noteq> ''overlay'' \<and>
   fst (ContainerStats_call (ex_env None) (ex_srv ''vfs'') \<lparr>csq_ContainerID = ''c1''\<rparr>) =
     Inr \<lparr>csr_Stats = Some (fst (buildContainerStats (ex_env None) (ex_srv ''vfs'') ex_oci
       (ex_ctr ''c1'' ''sb1'' Running)))\<rparr> \<and>
   cs_CPU (fst (buildContainerStats (ex_env None) (ex_srv ''vfs'') ex_oci
       (ex_ctr ''c1'' ''sb1'' Running))) \<noteq> None \<and>
   cs_Memory (fst (buildContainerStats (ex_env None) (ex_srv ''vfs'') ex_oci
       (ex_ctr ''c1'' ''sb1'' Running))) \<noteq> None \<and>
   cs_WritableLayer (fst (buildContainerStats (ex_env None) (ex_srv ''vfs'') ex_oci
       (ex_ctr ''c1'' ''sb1'' Running))) = None"
proof -
  define c1 where "c1 = ex_ctr ''c1'' ''sb1'' Running"
  define srv where "srv = ex_srv ''vfs''"
  define good where "good = ex_env None"
  define req where "req = \<lparr>csq_ContainerID = ''c1''\<rparr>"
  have found: "srv_containers srv (csq_ContainerID req) = Some c1"
    by (simp add: srv_def req_def c1_def ex_srv_def)
  have sb: "GetSandbox srv (ctr_Sandbox c1)
      = Some \<lparr>sb_ID = ''sb1'', sb_CgroupParent = ''/kubepods/pod1''\<rparr>"
    by (simp add: GetSandbox_def srv_def c1_def ex_srv_def ex_ctr_def)
  have rt: "rt_ContainerStats good c1
      (sb_CgroupParent \<lparr>sb_ID = ''sb1'', sb_CgroupParent = ''/kubepods/pod1''\<rparr>) = Inr ex_oci"
    by (simp add: good_def ex_env_def)
  have driver: "srv_Storage srv \<noteq> ''overlay''"
    by (simp add: srv_def ex_srv_def)
  from ContainerStats_sections [OF found sb rt] driver show ?thesis
    unfolding c1_def srv_def good_def req_def by blast
qed

text \<open>
  What \<open>buildContainerStats\<close> does with the probe's triple on the \<open>overlay\<close> driver:
  the two counts go into the writable-layer section as they are, and an error is
  logged as one warning.
\<close>

lemma buildContainerStats_overlay:
  assumes "srv_Storage s = ''overlay''"
    and "GetDiskUsageStats env (diffDir env c) = (bytesUsed, inodeUsed, err)"
  shows "cs_WritableLayer (fst (buildContainerStats env s ociStat c)) =
           Some \<lparr>fs_Timestamp = oci_SystemNano ociStat,
                  fs_FsID = Some (ctr_MountPoint c),
                  fs_UsedBytes = Some bytesUsed,
                  fs_InodesUsed = Some inodeUsed\<rparr>"
    and "snd (buildContainerStats env s ociStat c) =
           (case err of None \<Rightarrow> [] | Some e \<Rightarrow> [diskUsageWarning c e])"
  using assms by (simp_all add: buildContainerStats_def writableLayerOf_def)

lemma GetDiskUsageStats_error:
  "snd (snd (GetDiskUsageStats env path)) = Some err \<Longrightarrow>
     GetDiskUsageStats env path = (0, 0, Some err)"
  by (cases "diskWalk env path") (auto simp: GetDiskUsageStats_def)

text \<open>
  Claim C8. On the \<open>overlay\<close> driver, when the disk-usage probe on
  \<open>dirname(mountpoint)/diff\<close> returns an error, the record's writable-layer section is
  present with bytes-used and inodes-used both zero, one warning naming the container's
  ID is logged, and the call does not fail on account of the probe: with a registered
  sandbox and a successful runtime query the batch keeps the record and reports no
  error, and the entry point returns the record.
\<close>

theorem buildContainerStats_probe_failure:
  assumes "srv_Storage s = ''overlay''"
    and "snd (snd (GetDiskUsageStats env (diffDir env c))) = Some err"
  shows "cs_WritableLayer (fst (buildContainerStats env s ociStat c)) =
           Some \<lparr>fs_Timestamp = oci_SystemNano ociStat,
                  fs_FsID = Some (ctr_MountPoint c),
                  fs_UsedBytes = Some 0,
                  fs_InodesUsed = Some 0\<rparr> \<and>
         snd (buildContainerStats env s ociStat c) = [diskUsageWarning c err] \<and>
         sublist (ctr_ID c) (diskUsageWarning c err) \<and>
         (GetSandbox s (ctr_Sandbox c) = Some sb \<and>
          rt_ContainerStats env c (sb_CgroupParent sb) = Inr ociStat \<longrightarrow>
            CRIStatsForContainers env s [c] =
              ([fst (buildContainerStats env s ociStat c)], [], [diskUsageWarning c err]) \<and>
            (srv_containers s (csq_ContainerID req) = Some c \<longrightarrow>
               ContainerStats_call env s req =
                 (Inr \<lparr>csr_Stats = Some (fst (buildContainerStats env s ociStat c))\<rparr>,
                  [diskUsageWarning c err])))"
proof -
  note probe = GetDiskUsageStats_error [OF assms(2)]
  note built = buildContainerStats_overlay [OF assms(1) probe, of ociStat]
  have warned: "snd (buildContainerStats env s ociStat c) = [diskUsageWarning c err]"
    using built(2) by simp
  have named: "sublist (ctr_ID c) (diskUsageWarning c err)"
    by (simp only: diskUsageWarning_def sublist_appendI)
  have batch: "CRIStatsForContainers env s [c] =
      ([fst (buildContainerStats env s ociStat c)], [], [diskUsageWarning c err])"
    if "GetSandbox s (ctr_Sandbox c) = Some sb"
      and "rt_ContainerStats env c (sb_CgroupParent sb) = Inr ociStat"
    using CRIStats_single_built [OF that] by (simp add: warned)
  have entry: "ContainerStats_call env s req =
      (Inr \<lparr>csr_Stats = Some (fst (buildContainerStats env s ociStat c))\<rparr>,
       [diskUsageWarning c err])"
    if "GetSandbox s (ctr_Sandbox c) = Some sb"
      and "rt_ContainerStats env c (sb_CgroupParent sb) = Inr ociStat"
      and "srv_containers s (csq_ContainerID req) = Some c"
    using that(3)
    by (simp add: ContainerStats_call_def GetContainerFromShortID_def batch [OF that(1,2)]
        statsResponse_def)
  from built(1) warned named batch entry show ?thesis by blast
qed

text \<open>
  Container \<open>c1\<close> on the \<open>overlay\<close> driver, with a runtime that answers and a walk
  that fails.
\<close>

theorem buildContainerStats_probe_failure_witness:
  "srv_Storage (ex_srv ''overlay'') = ''overlay'' \<and>
   snd (snd (GetDiskUsageStats ex_env_walk_fails
      (diffDir ex_env_walk_fails (ex_ctr ''c1'' ''sb1'' Running)))) = Some (Error ''walk failed'') \<and>
   cs_WritableLayer (fst (buildContainerStats ex_env_walk_fails (ex_srv ''overlay'') ex_oci
      (ex_ctr ''c1'' ''sb1'' Running))) =
     Some \<lparr>fs_Timestamp = 1700000000,
            fs_FsID = Some ''/var/lib/storage/overlay/l1/merged'',
            fs_UsedBytes = Some 0, fs_InodesUsed = Some 0\<rparr> \<and>
   ContainerStats_call ex_env_walk_fails (ex_srv ''overlay'') \<lparr>csq_ContainerID = ''c1''\<rparr> =
     (Inr \<lparr>csr_Stats = Some (fst (buildContainerStats ex_env_walk_fails (ex_srv ''overlay'')
        ex_oci (ex_ctr ''c1'' ''sb1'' Running)))\<rparr>,
      [diskUsageWarning (ex_ctr ''c1'' ''sb1'' Running) (Error ''walk failed'')])"
proof -
  define c1 where "c1 = ex_ctr ''c1'' ''sb1'' Running"
  define srv where "srv = ex_srv ''overlay''"
  define env where "env = ex_env_walk_fails"
  define req where "req = \<lparr>csq_ContainerID = ''c1''\<rparr>"
  have driver: "srv_Storage srv = ''overlay''"
    by (simp add: srv_def ex_srv_def)
  have probe: "snd (snd (GetDiskUsageStats env (diffDir env c1))) = Some (Error ''walk failed'')"
    by (simp add: GetDiskUsageStats_def env_def ex_env_walk_fails_def)
  have sb: "GetSandbox srv (ctr_Sandbox c1)
      = Some \<lparr>sb_ID = ''sb1'', sb_CgroupParent = ''/kubepods/pod1''\<rparr>"
    by (simp add: GetSandbox_def srv_def c1_def ex_srv_def ex_ctr_def)
  have rt: "rt_ContainerStats env c1
      (sb_CgroupParent \<lparr>sb_ID = ''sb1'', sb_CgroupParent = ''/kubepods/pod1''\<rparr>) = Inr ex_oci"
    by (simp add: env_def ex_env_walk_fails_def ex_env_def)
  have found: "srv_containers srv (csq_ContainerID req) = Some c1"
    by (simp add: srv_def req_def c1_def ex_srv_def)
  have stamp: "oci_SystemNano ex_oci = 1700000000"
    by (simp add: ex_oci_def)
  have mount: "ctr_MountPoint c1 = ''/var/lib/storage/overlay/l1/merged''"
    by (simp add: c1_def ex_ctr_def)
  from buildContainerStats_probe_failure [OF driver probe, of ex_oci _ req] sb rt found
  have "cs_WritableLayer (fst (buildContainerStats env srv ex_oci c1)) =
      Some \<lparr>fs_Timestamp = oci_SystemNano ex_oci, fs_FsID = Some (ctr_MountPoint c1),
             fs_UsedBytes = Some 0, fs_InodesUsed = Some 0\<rparr>"
    and "ContainerStats_call env srv req =
      (Inr \<lparr>csr_Stats = Some (fst (buildContainerStats env srv ex_oci c1))\<rparr>,
       [diskUsageWarning c1 (Error ''walk failed'')])"
    by blast+
  with driver probe stamp mount show ?thesis
    unfolding c1_def srv_def env_def req_def by simp
qed

end
